theory Spec2Isabelle
  imports Complex_Main
begin

section \<open>The scene of \<open>MechanicalVRExperience\<close> (src/concept.js)\<close>

text \<open>
  The program is one class that builds a scene and wires callbacks to it. The embedding
  keeps the fields of the class and of the engine objects the callbacks read or write,
  and makes the environment explicit: pointer picks, controller notifications, rendered
  frames and elapsed time arrive as events. JavaScript numbers are modelled as reals;
  the only arithmetic the callbacks perform is \<open>position.z -= 0.02\<close> followed by
  \<open>position.z += 0.02\<close> and \<open>rotation.y += 0.01\<close>. The engine's animation runtime is
  not part of the source; what it does to the clips the source begins is modelled from
  the specification.

  Calls that only affect how the picture looks (camera, lights, clear colour, mesh
  geometry, the particle texture and its colour and size ranges) are left out.
\<close>

subsection \<open>Engine objects\<close>

record vector3 =
  vx :: real
  vy :: real
  vz :: real

definition Vector3 :: "real \<Rightarrow> real \<Rightarrow> real \<Rightarrow> vector3" where
  "Vector3 a b c = \<lparr>vx = a, vy = b, vz = c\<rparr>"

text \<open>
  A mesh object is identified by the reference the source holds to it. The constructors
  stand for the meshes named \<open>ground\<close>, \<open>mechanical${i}\<close>, \<open>radar\<close>, \<open>panel\<close> and
  \<open>button${index}\<close>.
\<close>

datatype mesh_ref = Ground | Mechanical nat | Radar | Panel | Button nat

datatype material = PBRMaterial string | StandardMaterial string | ShaderMaterial string

datatype loop_mode = ANIMATIONLOOPMODE_RELATIVE | ANIMATIONLOOPMODE_CYCLE
  | ANIMATIONLOOPMODE_CONSTANT

record animation =
  targetProperty :: string
  framePerSecond :: nat
  loopMode :: loop_mode
  animKeys :: "(real \<times> real) list"

text \<open>
  The closures registered on \<open>OnPickTrigger\<close>: each captures the mesh it was created
  for.
\<close>

datatype action =
    ExecuteMechanicalActivated mesh_ref
  | ExecuteButtonPressed mesh_ref

record mesh =
  position :: vector3
  rotation :: vector3
  scaling :: vector3
  material :: "material option"
  parent :: "mesh_ref option"
  animations :: "animation list"
  actionManager :: "action list option"

text \<open>A mesh as the engine's \<open>MeshBuilder\<close> returns it, before the source assigns to it.\<close>

definition new_mesh :: mesh where
  "new_mesh = \<lparr>position = Vector3 0 0 0, rotation = Vector3 0 0 0, scaling = Vector3 1 1 1,
     material = None, parent = None, animations = [], actionManager = None\<rparr>"

text \<open>
  \<open>particleSystem.emitter\<close> holds either a vector of its own or, after
  \<open>particleSystem.emitter = mesh.position\<close>, the position object of a mesh.
\<close>

datatype emitter_ref = EmitterVector vector3 | EmitterPositionOf mesh_ref

record particleSystem =
  emitter :: emitter_ref
  emitRate :: nat
  started :: bool

record sound =
  soundName :: string
  url :: string
  spatialSound :: bool
  attachedTo :: "mesh_ref option"
  playing :: bool

datatype timeout_cb = RestoreScaling mesh_ref | ReleaseButton mesh_ref

datatype render_cb = RadarSweep mesh_ref

text \<open>Requests made to the particle, audio and timer collaborators, in call order.\<close>

datatype call =
    ParticleStart string
  | SoundNew string
  | SoundAttachToMesh mesh_ref
  | SoundPlay
  | SetTimeout timeout_cb nat

datatype error = TypeError string

type_synonym controller = nat

subsection \<open>The experience and its environment\<close>

text \<open>
  \<open>hasScene\<close> tells whether \<open>this.scene\<close> has been assigned: the constructor leaves it
  undefined and \<open>initialize\<close> creates it first. The meshes, the animations begun and the
  callbacks registered before render belong to the scene.
\<close>

record experience =
  hasScene :: bool
  meshes :: "mesh_ref \<Rightarrow> mesh"
  sceneMeshes :: "mesh_ref list"
  materials :: "string \<rightharpoonup> material"
  particleSystems :: "string \<rightharpoonup> particleSystem"
  sounds :: "sound list"
  animatables :: "(mesh_ref \<times> real \<times> real \<times> bool) list"
  beforeRender :: "render_cb list"
  xrHelper :: "mesh_ref option list option"
  triggerObservers :: "controller list"
  timers :: "(nat \<times> timeout_cb) list"
  clock :: nat
  trace :: "call list"
  console :: "string list"
  uncaught :: "error list"
  renderLoop :: bool

text \<open>
  A callback either returns or throws; the state it leaves behind is kept in both cases,
  since what it wrote before throwing stays written.
\<close>

datatype outcome = Done experience | Threw error experience

fun state_of :: "outcome \<Rightarrow> experience" where
  "state_of (Done s) = s"
| "state_of (Threw e s) = s"

fun settle :: "outcome \<Rightarrow> experience" where
  "settle (Done s) = s"
| "settle (Threw e s) = s\<lparr>uncaught := uncaught s @ [e]\<rparr>"

text \<open>Sequencing: a throw ends the rest of the method.\<close>

fun andThen :: "outcome \<Rightarrow> (experience \<Rightarrow> outcome) \<Rightarrow> outcome" where
  "andThen (Done s) f = f s"
| "andThen (Threw e s) f = Threw e s"

primrec forEach :: "('a \<Rightarrow> experience \<Rightarrow> outcome) \<Rightarrow> 'a list \<Rightarrow> experience \<Rightarrow> outcome" where
  "forEach f [] s = Done s"
| "forEach f (x # xs) s = andThen (f x s) (forEach f xs)"


definition constructor :: experience where
  "constructor = \<lparr>hasScene = False, meshes = (\<lambda>_. new_mesh), sceneMeshes = [],
     materials = Map.empty,
     particleSystems = Map.empty, sounds = [], animatables = [], beforeRender = [],
     xrHelper = None, triggerObservers = [], timers = [], clock = 0, trace = [],
     console = [], uncaught = [], renderLoop = False\<rparr>"

text \<open>
  The engine's constructors are handed \<open>this.scene\<close> and read it: while the scene is
  undefined, building a mesh, a material or a particle system throws before anything
  is created.
\<close>

definition createMesh :: "mesh_ref \<Rightarrow> experience \<Rightarrow> outcome" where
  "createMesh r s =
     (if hasScene s then
        Done (s\<lparr>meshes := (meshes s)(r := new_mesh), sceneMeshes := sceneMeshes s @ [r]\<rparr>)
      else Threw (TypeError ''cannot read properties of undefined'') s)"

definition updateMesh :: "mesh_ref \<Rightarrow> (mesh \<Rightarrow> mesh) \<Rightarrow> experience \<Rightarrow> experience" where
  "updateMesh r f s = s\<lparr>meshes := (meshes s)(r := f (meshes s r))\<rparr>"

definition setTimeout :: "timeout_cb \<Rightarrow> nat \<Rightarrow> experience \<Rightarrow> experience" where
  "setTimeout cb delay s =
     s\<lparr>timers := timers s @ [(clock s + delay, cb)], trace := trace s @ [SetTimeout cb delay]\<rparr>"

subsection \<open>Scene construction\<close>

definition createMaterials :: "experience \<Rightarrow> outcome" where
  "createMaterials s =
     (if hasScene s then
        Done (s\<lparr>materials := (materials s)(''metallic'' \<mapsto> PBRMaterial ''metallic'',
                ''emissive'' \<mapsto> StandardMaterial ''emissive'',
                ''geometric'' \<mapsto> ShaderMaterial ''geometric'')\<rparr>)
      else Threw (TypeError ''cannot read properties of undefined'') s)"

definition mechanicalAnim :: animation where
  "mechanicalAnim = \<lparr>targetProperty = ''rotation.y'', framePerSecond = 30,
     loopMode = ANIMATIONLOOPMODE_CYCLE, animKeys = [(0, 0), (100, pi * 2)]\<rparr>"

definition createMechanicalElement :: "nat \<Rightarrow> experience \<Rightarrow> outcome" where
  "createMechanicalElement i s =
     (let radius = 5; count = 8;
          angle = (real i / count) * pi * 2;
          x = cos angle * radius;
          z = sin angle * radius
      in andThen (createMesh (Mechanical i) s) (\<lambda>s1.
           let s2 = updateMesh (Mechanical i) (\<lambda>m. m\<lparr>position := Vector3 x 1.5 z\<rparr>) s1;
               s3 = updateMesh (Mechanical i) (\<lambda>m. m\<lparr>material := materials s2 ''metallic''\<rparr>) s2;
               s4 = updateMesh (Mechanical i) (\<lambda>m. m\<lparr>animations := [mechanicalAnim]\<rparr>) s3;
               s5 = s4\<lparr>animatables := animatables s4 @ [(Mechanical i, 0, 100, True)]\<rparr>
           in Done (updateMesh (Mechanical i)
                (\<lambda>m. m\<lparr>actionManager := Some [ExecuteMechanicalActivated (Mechanical i)]\<rparr>) s5)))"

definition createMechanicalElements :: "experience \<Rightarrow> outcome" where
  "createMechanicalElements s = forEach createMechanicalElement [0..<8] s"

definition createRadarDisplay :: "experience \<Rightarrow> outcome" where
  "createRadarDisplay s =
     andThen (createMesh Radar s) (\<lambda>s1.
       let s2 = updateMesh Radar (\<lambda>m. m\<lparr>position := Vector3 0 3 0\<rparr>) s1;
           s3 = updateMesh Radar (\<lambda>m. m\<lparr>rotation := Vector3 (pi / 2) 0 0\<rparr>) s2;
           s4 = updateMesh Radar (\<lambda>m. m\<lparr>material := Some (StandardMaterial ''radarMat'')\<rparr>) s3
       in Done (s4\<lparr>beforeRender := beforeRender s4 @ [RadarSweep Radar]\<rparr>))"

definition buttonPositions :: "(real \<times> real) list" where
  "buttonPositions =
     [(-0.7, 0.2), (-0.35, 0.2), (0, 0.2), (0.35, 0.2), (0.7, 0.2),
      (-0.7, -0.2), (-0.35, -0.2), (0, -0.2), (0.35, -0.2), (0.7, -0.2)]"

definition createControlButton :: "mesh_ref \<Rightarrow> (real \<times> real) \<times> nat \<Rightarrow> experience \<Rightarrow> outcome" where
  "createControlButton panel entry s =
     (let pos = fst entry; index = snd entry
      in andThen (createMesh (Button index) s) (\<lambda>s1.
           let s2 = updateMesh (Button index) (\<lambda>m. m\<lparr>parent := Some panel\<rparr>) s1;
               s3 = updateMesh (Button index)
                      (\<lambda>m. m\<lparr>position := Vector3 (fst pos) (snd pos) 0.1\<rparr>) s2;
               s4 = updateMesh (Button index) (\<lambda>m. m\<lparr>material := materials s3 ''emissive''\<rparr>) s3
           in Done (updateMesh (Button index)
                (\<lambda>m. m\<lparr>actionManager := Some [ExecuteButtonPressed (Button index)]\<rparr>) s4)))"

definition createControlButtons :: "mesh_ref \<Rightarrow> experience \<Rightarrow> outcome" where
  "createControlButtons panel s =
     forEach (createControlButton panel) (zip buttonPositions [0..<length buttonPositions]) s"

definition createControlPanel :: "experience \<Rightarrow> outcome" where
  "createControlPanel s =
     andThen (createMesh Panel s) (\<lambda>s1.
       let s2 = updateMesh Panel (\<lambda>m. m\<lparr>position := Vector3 0 1.2 (-1)\<rparr>) s1;
           s3 = updateMesh Panel (\<lambda>m. m\<lparr>material := materials s2 ''metallic''\<rparr>) s2
       in createControlButtons Panel s3)"

definition setupParticleSystems :: "experience \<Rightarrow> outcome" where
  "setupParticleSystems s =
     (if hasScene s then
        Done (s\<lparr>particleSystems := (particleSystems s)(''main'' \<mapsto>
                \<lparr>emitter = EmitterVector (Vector3 0 1 0), emitRate = 100, started = False\<rparr>)\<rparr>)
      else Threw (TypeError ''cannot read properties of undefined'') s)"

definition createEnvironment :: "experience \<Rightarrow> outcome" where
  "createEnvironment s =
     andThen (createMesh Ground s) (\<lambda>s1.
       let s2 = updateMesh Ground (\<lambda>m. m\<lparr>material := materials s1 ''metallic''\<rparr>) s1
       in andThen (createMechanicalElements s2) (\<lambda>s3.
            andThen (createRadarDisplay s3) (\<lambda>s4.
              andThen (createControlPanel s4) setupParticleSystems)))"

subsection \<open>Feedback callbacks\<close>

definition onMechanicalElementActivated :: "mesh_ref \<Rightarrow> experience \<Rightarrow> outcome" where
  "onMechanicalElementActivated mesh s =
     (case particleSystems s ''main'' of
        None \<Rightarrow> Threw (TypeError ''cannot set property emitter of undefined'') s
      | Some particleSystem \<Rightarrow>
          (let s1 = s\<lparr>particleSystems := (particleSystems s)(''main'' \<mapsto>
                        particleSystem\<lparr>emitter := EmitterPositionOf mesh, started := True\<rparr>),
                      trace := trace s @ [ParticleStart ''main'']\<rparr>;
               s2 = s1\<lparr>sounds := sounds s1 @
                          [\<lparr>soundName = ''mechanical'', url = ''path/to/mechanical-sound.mp3'',
                            spatialSound = True, attachedTo = Some mesh, playing = True\<rparr>],
                       trace := trace s1 @ [SoundNew ''mechanical'', SoundAttachToMesh mesh, SoundPlay]\<rparr>;
               s3 = updateMesh mesh (\<lambda>m. m\<lparr>scaling := Vector3 1.2 1.2 1.2\<rparr>) s2
           in Done (setTimeout (RestoreScaling mesh) 200 s3)))"

definition onButtonPressed :: "mesh_ref \<Rightarrow> experience \<Rightarrow> outcome" where
  "onButtonPressed button s =
     (let s1 = updateMesh button
                 (\<lambda>m. m\<lparr>position := (position m)\<lparr>vz := vz (position m) - 0.02\<rparr>\<rparr>) s;
          s2 = setTimeout (ReleaseButton button) 100 s1
      in onMechanicalElementActivated button s2)"

fun fire :: "nat \<times> timeout_cb \<Rightarrow> experience \<Rightarrow> experience" where
  "fire (due, RestoreScaling mesh) s = updateMesh mesh (\<lambda>m. m\<lparr>scaling := Vector3 1 1 1\<rparr>) s"
| "fire (due, ReleaseButton button) s =
     updateMesh button (\<lambda>m. m\<lparr>position := (position m)\<lparr>vz := vz (position m) + 0.02\<rparr>\<rparr>) s"

text \<open>
  Time passing: the timer queue runs every callback whose delay has elapsed, earliest
  first, and among equal deadlines in the order they were set.
\<close>

definition elapse :: "nat \<Rightarrow> experience \<Rightarrow> experience" where
  "elapse dt s =
     (let now = clock s + dt;
          due = filter (\<lambda>t. fst t \<le> now) (timers s);
          rest = filter (\<lambda>t. now < fst t) (timers s)
      in fold fire (sort_key fst due) (s\<lparr>clock := now, timers := rest\<rparr>))"

subsection \<open>Controller input\<close>

text \<open>
  The members the class declares. A call \<open>this.name(mesh)\<close> runs the method of that
  name; a name that is no member of the object is \<open>undefined\<close>, and calling it throws.
\<close>

definition class_members :: "string list" where
  "class_members =
     [''canvas'', ''engine'', ''scene'', ''xrHelper'', ''materials'', ''particleSystems'',
      ''COLORS'', ''constructor'', ''initialize'', ''setupVR'', ''createMaterials'',
      ''createEnvironment'', ''createMechanicalElements'', ''createRadarDisplay'',
      ''createControlPanel'', ''createControlButtons'', ''setupParticleSystems'',
      ''setupControllerInteractions'', ''onMechanicalElementActivated'',
      ''onButtonPressed'', ''createSpotlights'']"

definition mesh_methods :: "(string \<times> (mesh_ref \<Rightarrow> experience \<Rightarrow> outcome)) list" where
  "mesh_methods =
     [(''onMechanicalElementActivated'', onMechanicalElementActivated),
      (''onButtonPressed'', onButtonPressed)]"

definition call_this :: "string \<Rightarrow> mesh_ref \<Rightarrow> experience \<Rightarrow> outcome" where
  "call_this name mesh s =
     (case map_of mesh_methods name of
        Some f \<Rightarrow> f mesh s
      | None \<Rightarrow> Threw (TypeError (name @ '' is not a function'')) s)"

record eventData =
  pressed :: bool

record pickingInfo =
  hit :: bool
  pickedMesh :: "mesh_ref option"

text \<open>
  The observer that \<open>setupControllerInteractions\<close> adds to the controller's trigger
  observable; \<open>pick\<close> is what \<open>scene.pickWithRay\<close> answers for the controller's ray.
\<close>

definition onTriggerStateChanged :: "eventData \<Rightarrow> pickingInfo \<Rightarrow> experience \<Rightarrow> outcome" where
  "onTriggerStateChanged ev pick s =
     (if pressed ev then
        (case pickedMesh pick of
           Some m \<Rightarrow> if hit pick then call_this ''onControllerInteraction'' m s else Done s
         | None \<Rightarrow> Done s)
      else Done s)"

definition setupControllerInteractions :: "controller \<Rightarrow> experience \<Rightarrow> experience" where
  "setupControllerInteractions c s = s\<lparr>triggerObservers := triggerObservers s @ [c]\<rparr>"

fun notifyTrigger :: "controller list \<Rightarrow> controller \<Rightarrow> eventData \<Rightarrow> pickingInfo \<Rightarrow> experience \<Rightarrow> outcome" where
  "notifyTrigger [] c ev pick s = Done s"
| "notifyTrigger (c' # cs) c ev pick s =
     (if c' = c then
        (case onTriggerStateChanged ev pick s of
           Done s' \<Rightarrow> notifyTrigger cs c ev pick s'
         | Threw e s' \<Rightarrow> Threw e s')
      else notifyTrigger cs c ev pick s)"

subsection \<open>Initialisation\<close>

text \<open>
  \<open>WebXRDefaultExperience.CreateAsync\<close> belongs to the XR runtime: whether its promise
  resolves or rejects is an input. Its arguments read \<open>this.scene\<close> inside the \<open>try\<close>
  block, so without a scene the \<open>catch\<close> branch runs as well.
\<close>

datatype xr_result = XRCreated | XRRejected

definition getMeshByName_ground :: "experience \<Rightarrow> mesh_ref option" where
  "getMeshByName_ground s = (if Ground \<in> set (sceneMeshes s) then Some Ground else None)"

definition setupVR :: "xr_result \<Rightarrow> experience \<Rightarrow> outcome" where
  "setupVR xr s =
     (if hasScene s then
        (case xr of
           XRCreated \<Rightarrow> Done (s\<lparr>xrHelper := Some [getMeshByName_ground s]\<rparr>)
         | XRRejected \<Rightarrow> Done (s\<lparr>console := console s @ [''WebXR not available'']\<rparr>))
      else Done (s\<lparr>console := console s @ [''WebXR not available'']\<rparr>))"

definition initialize :: "xr_result \<Rightarrow> experience \<Rightarrow> outcome" where
  "initialize xr s =
     (let s0 = s\<lparr>hasScene := True\<rparr>
      in andThen (createMaterials s0) (\<lambda>s1.
           andThen (createEnvironment s1) (\<lambda>s2.
             andThen (setupVR xr s2) (\<lambda>s3. Done (s3\<lparr>renderLoop := True\<rparr>)))))"

subsection \<open>Clip evaluation\<close>

text \<open>
  Modelled from the spec: the evaluation of an animation clip at a frame. The source
  only declares the clip and hands it to \<open>scene.beginAnimation(mechanical, 0, 100, true)\<close>;
  the animation runtime that advances it is the engine's and is not in the source.
  Section 4.3 of the specification: the value is interpolated between the keyframes at
  the loop-relative time; a looping clip wraps time modulo the clip duration, a
  non-looping clip clamps at the final keyframe.
\<close>

definition loopFrame :: "real \<Rightarrow> real \<Rightarrow> real \<Rightarrow> real" where
  "loopFrame from to frame =
     from + ((frame - from) - (to - from) * of_int \<lfloor>(frame - from) / (to - from)\<rfloor>)"

fun interpolate :: "(real \<times> real) list \<Rightarrow> real \<Rightarrow> real" where
  "interpolate [] frame = 0"
| "interpolate [(f0, v0)] frame = v0"
| "interpolate ((f0, v0) # (f1, v1) # ks) frame =
     (if frame \<le> f0 then v0
      else if frame < f1 then v0 + (v1 - v0) * ((frame - f0) / (f1 - f0))
      else interpolate ((f1, v1) # ks) frame)"

definition clipValue :: "animation \<Rightarrow> real \<Rightarrow> real \<Rightarrow> bool \<Rightarrow> real \<Rightarrow> real" where
  "clipValue a from to loop frame =
     interpolate (animKeys a)
       (if loop \<and> loopMode a = ANIMATIONLOOPMODE_CYCLE then loopFrame from to frame
        else min frame to)"

text \<open>
  Modelled from the spec: what a rendered frame does to the clips begun with
  \<open>scene.beginAnimation\<close>, which is the engine's animation runtime as well. Section 4.3:
  for each clip the value at the current time is written to the target property of the
  entity. The clips of the source are all begun during initialisation, at time 0, so
  the time of a clip is the clock; a clip of \<open>framePerSecond\<close> frames per second is at
  frame \<open>ms * framePerSecond / 1000\<close> after \<open>ms\<close> milliseconds. The only target property
  in the source is \<open>rotation.y\<close>.
\<close>

definition applyClip :: "mesh_ref \<Rightarrow> real \<Rightarrow> real \<Rightarrow> bool \<Rightarrow> real \<Rightarrow> animation \<Rightarrow> experience \<Rightarrow> experience" where
  "applyClip r from to loop ms a s =
     (if targetProperty a = ''rotation.y'' then
        updateMesh r (\<lambda>m. m\<lparr>rotation := (rotation m)\<lparr>vy :=
          clipValue a from to loop (ms * real (framePerSecond a) / 1000)\<rparr>\<rparr>) s
      else s)"

fun animateTarget :: "real \<Rightarrow> mesh_ref \<times> real \<times> real \<times> bool \<Rightarrow> experience \<Rightarrow> experience" where
  "animateTarget ms (r, from, to, loop) s =
     fold (applyClip r from to loop ms) (animations (meshes s r)) s"

definition animate :: "experience \<Rightarrow> experience" where
  "animate s = fold (animateTarget (real (clock s))) (animatables s) s"

subsection \<open>Events\<close>

text \<open>
  What the engine, the XR runtime and the clock do to the program. \<open>PointerPick r\<close>:
  the pointer picks mesh \<open>r\<close> and the engine processes its \<open>OnPickTrigger\<close> actions.
  \<open>Elapse dt\<close>: \<open>dt\<close> milliseconds pass. \<open>RenderFrame\<close>: the scene renders a frame; it
  advances the clips and runs the callbacks registered before render. \<open>ControllerModelLoaded c\<close>: controller
  \<open>c\<close> has been added, its motion controller initialised and its model loaded, the chain
  of observers that \<open>setupVR\<close> registers when the XR experience exists.
  \<open>TriggerStateChanged c ev pick\<close>: the trigger observable of \<open>c\<close> notifies its observers
  with \<open>ev\<close>, and \<open>pick\<close> is the answer of the ray cast. The observables are taken as the
  source uses them.
\<close>

datatype event =
    PointerPick mesh_ref
  | Elapse nat
  | RenderFrame
  | ControllerModelLoaded controller
  | TriggerStateChanged controller eventData pickingInfo

fun execute :: "action \<Rightarrow> experience \<Rightarrow> outcome" where
  "execute (ExecuteMechanicalActivated mesh) s = onMechanicalElementActivated mesh s"
| "execute (ExecuteButtonPressed button) s = onButtonPressed button s"

fun processTrigger :: "action list \<Rightarrow> experience \<Rightarrow> outcome" where
  "processTrigger [] s = Done s"
| "processTrigger (a # as) s =
     (case execute a s of
        Done s' \<Rightarrow> processTrigger as s'
      | Threw e s' \<Rightarrow> Threw e s')"

definition pointerPick :: "mesh_ref \<Rightarrow> experience \<Rightarrow> outcome" where
  "pointerPick r s =
     (case actionManager (meshes s r) of
        None \<Rightarrow> Done s
      | Some acts \<Rightarrow> processTrigger acts s)"

fun render_cb_run :: "render_cb \<Rightarrow> experience \<Rightarrow> experience" where
  "render_cb_run (RadarSweep radar) s =
     updateMesh radar (\<lambda>m. m\<lparr>rotation := (rotation m)\<lparr>vy := vy (rotation m) + 0.01\<rparr>\<rparr>) s"

fun step :: "event \<Rightarrow> experience \<Rightarrow> experience" where
  "step (PointerPick r) s = settle (pointerPick r s)"
| "step (Elapse dt) s = elapse dt s"
| "step RenderFrame s =
     (if renderLoop s then fold render_cb_run (beforeRender (animate s)) (animate s) else s)"
| "step (ControllerModelLoaded c) s =
     (case xrHelper s of None \<Rightarrow> s | Some h \<Rightarrow> setupControllerInteractions c s)"
| "step (TriggerStateChanged c ev pick) s =
     settle (notifyTrigger (triggerObservers s) c ev pick s)"

definition run :: "event list \<Rightarrow> experience \<Rightarrow> experience" where
  "run evs s = fold step evs s"

text \<open>The last two lines of the program: construct the experience and initialise it.\<close>

definition scene0 :: "xr_result \<Rightarrow> experience" where
  "scene0 xr = state_of (initialize xr constructor)"

subsection \<open>Observations\<close>

text \<open>
  The sounds that were created for a mesh and played (the source never stops or
  disposes one; when a sound ends is the audio engine's business and is not modelled),
  the reversion timers still queued for a mesh, and the calls a callback added to the
  trace.
\<close>

definition soundsPlayedOn :: "mesh_ref \<Rightarrow> experience \<Rightarrow> sound list" where
  "soundsPlayedOn r s = filter (\<lambda>x. attachedTo x = Some r \<and> playing x) (sounds s)"

fun timer_target :: "nat \<times> timeout_cb \<Rightarrow> mesh_ref" where
  "timer_target (due, RestoreScaling r) = r"
| "timer_target (due, ReleaseButton r) = r"

definition pendingReversions :: "mesh_ref \<Rightarrow> experience \<Rightarrow> (nat \<times> timeout_cb) list" where
  "pendingReversions r s = filter (\<lambda>t. timer_target t = r) (timers s)"

definition new_calls :: "experience \<Rightarrow> experience \<Rightarrow> call list" where
  "new_calls s s' = drop (length (trace s)) (trace s')"

text \<open>The shape of a call: which request it is and its constants, not the mesh it is for.\<close>

datatype call_shape =
    ParticleStartShape string
  | SoundNewShape string
  | SoundAttachToMeshShape
  | SoundPlayShape
  | SetTimeoutShape nat

fun shape :: "call \<Rightarrow> call_shape" where
  "shape (ParticleStart n) = ParticleStartShape n"
| "shape (SoundNew n) = SoundNewShape n"
| "shape (SoundAttachToMesh r) = SoundAttachToMeshShape"
| "shape SoundPlay = SoundPlayShape"
| "shape (SetTimeout cb delay) = SetTimeoutShape delay"


text \<open>The pick actions the construction registers, mesh by mesh.\<close>

fun pick_actions :: "mesh_ref \<Rightarrow> action list option" where
  "pick_actions (Mechanical i) =
     (if i < 8 then Some [ExecuteMechanicalActivated (Mechanical i)] else None)"
| "pick_actions (Button j) =
     (if j < 10 then Some [ExecuteButtonPressed (Button j)] else None)"
| "pick_actions Ground = None"
| "pick_actions Radar = None"
| "pick_actions Panel = None"

definition wired :: "experience \<Rightarrow> bool" where
  "wired s \<longleftrightarrow> particleSystems s ''main'' \<noteq> None \<and> (\<forall>r. actionManager (meshes s r) = pick_actions r)"




section \<open>Facts about the callbacks\<close>

lemma upt8: "[0..<8] = [0,1,2,3,4,5,6,7]"
  by (simp add: upt_rec)
lemma upt10: "[0..<10] = [0,1,2,3,4,5,6,7,8,9]"
  by (simp add: upt_rec)

lemmas build_defs = scene0_def initialize_def setupVR_def createEnvironment_def createMaterials_def
  createMechanicalElements_def createMechanicalElement_def createRadarDisplay_def
  createControlPanel_def createControlButtons_def createControlButton_def buttonPositions_def
  setupParticleSystems_def createMesh_def updateMesh_def constructor_def getMeshByName_ground_def
  new_mesh_def Let_def upt8 upt10

lemma call_undefined_method:
  "call_this ''onControllerInteraction'' m s =
     Threw (TypeError ''onControllerInteraction is not a function'') s"
  by (simp add: call_this_def mesh_methods_def)

lemma trigger_handler_cases:
  "onTriggerStateChanged ev pick s = Done s \<or>
   onTriggerStateChanged ev pick s = Threw (TypeError ''onControllerInteraction is not a function'') s"
  by (simp add: onTriggerStateChanged_def call_undefined_method split: option.split)

lemma notifyTrigger_cases:
  "notifyTrigger obs c ev pick s = Done s \<or>
   notifyTrigger obs c ev pick s = Threw (TypeError ''onControllerInteraction is not a function'') s"
proof (induction obs)
  case Nil
  then show ?case by simp
next
  case (Cons c' obs)
  from trigger_handler_cases [of ev pick s] show ?case
  proof
    assume "onTriggerStateChanged ev pick s = Done s"
    with Cons show ?thesis by simp
  next
    assume "onTriggerStateChanged ev pick s = Threw (TypeError ''onControllerInteraction is not a function'') s"
    with Cons show ?thesis by simp
  qed
qed

lemma initialize_returns: "initialize xr constructor = Done (scene0 xr)"
  by (cases xr; simp add: build_defs)

lemma scene0_Created:
  "scene0 XRCreated = (scene0 XRRejected)\<lparr>xrHelper := Some [Some Ground], console := []\<rparr>"
  by (simp add: build_defs)

lemma rejected_actionManager: "actionManager (meshes (scene0 XRRejected) r) = pick_actions r"
  by (cases r) (auto simp add: build_defs)

lemma rejected_scaling: "scaling (meshes (scene0 XRRejected) r) = Vector3 1 1 1"
  by (cases r) (auto simp add: build_defs)


lemma rejected_animations:
  "i < 8 \<Longrightarrow> animations (meshes (scene0 XRRejected) (Mechanical i)) = [mechanicalAnim]"
  by (auto simp add: build_defs)

lemma rejected_fields:
  "timers (scene0 XRRejected) = []"
  "sounds (scene0 XRRejected) = []"
  "trace (scene0 XRRejected) = []"
  "clock (scene0 XRRejected) = 0"
  "triggerObservers (scene0 XRRejected) = []"
  "uncaught (scene0 XRRejected) = []"
  "renderLoop (scene0 XRRejected)"
  "particleSystems (scene0 XRRejected) ''main'' =
     Some \<lparr>emitter = EmitterVector (Vector3 0 1 0), emitRate = 100, started = False\<rparr>"
  "materials (scene0 XRRejected) ''metallic'' = Some (PBRMaterial ''metallic'')"
  "materials (scene0 XRRejected) ''emissive'' = Some (StandardMaterial ''emissive'')"
  "xrHelper (scene0 XRRejected) = None"
  "hasScene (scene0 XRRejected)"
  "beforeRender (scene0 XRRejected) = [RadarSweep Radar]"
  "animatables (scene0 XRRejected) = map (\<lambda>i. (Mechanical i, 0, 100, True)) [0..<8]"
  "materials (scene0 XRRejected) ''radarMat'' = None"
  by (simp_all add: build_defs)

lemma scene0_actionManager: "actionManager (meshes (scene0 xr) r) = pick_actions r"
  by (cases xr) (simp_all add: scene0_Created rejected_actionManager)

lemma scene0_scaling: "scaling (meshes (scene0 xr) r) = Vector3 1 1 1"
  by (cases xr) (simp_all add: scene0_Created rejected_scaling)

lemma scene0_fields:
  "timers (scene0 xr) = []" "sounds (scene0 xr) = []" "trace (scene0 xr) = []"
  "clock (scene0 xr) = 0" "triggerObservers (scene0 xr) = []" "uncaught (scene0 xr) = []"
  "renderLoop (scene0 xr)"
  "particleSystems (scene0 xr) ''main'' =
     Some \<lparr>emitter = EmitterVector (Vector3 0 1 0), emitRate = 100, started = False\<rparr>"
  "materials (scene0 xr) ''metallic'' = Some (PBRMaterial ''metallic'')"
  "materials (scene0 xr) ''emissive'' = Some (StandardMaterial ''emissive'')"
  "hasScene (scene0 xr)"
  "beforeRender (scene0 xr) = [RadarSweep Radar]"
  "animatables (scene0 xr) = map (\<lambda>i. (Mechanical i, 0, 100, True)) [0..<8]"
  "materials (scene0 xr) ''radarMat'' = None"
  by (cases xr; simp add: scene0_Created rejected_fields)+


lemma scene0_animations:
  "i < 8 \<Longrightarrow> animations (meshes (scene0 xr) (Mechanical i)) = [mechanicalAnim]"
  by (cases xr) (simp_all add: scene0_Created rejected_animations)

lemma scene0_xrHelper:
  "xrHelper (scene0 XRRejected) = None" "xrHelper (scene0 XRCreated) = Some [Some Ground]"
  by (simp_all add: scene0_Created rejected_fields)

lemma scene0_wired: "wired (scene0 xr)"
  by (simp add: wired_def scene0_actionManager scene0_fields)

lemma activated_returns:
  assumes "particleSystems s ''main'' = Some ps"
  shows "onMechanicalElementActivated r s = Done (state_of (onMechanicalElementActivated r s))"
  using assms
  by (simp add: onMechanicalElementActivated_def Let_def)

lemma activated_fields:
  assumes "particleSystems s ''main'' = Some ps"
  shows "sounds (state_of (onMechanicalElementActivated r s)) =
           sounds s @ [\<lparr>soundName = ''mechanical'', url = ''path/to/mechanical-sound.mp3'',
                        spatialSound = True, attachedTo = Some r, playing = True\<rparr>]"
    and "timers (state_of (onMechanicalElementActivated r s)) =
           timers s @ [(clock s + 200, RestoreScaling r)]"
    and "trace (state_of (onMechanicalElementActivated r s)) =
           trace s @ [ParticleStart ''main'', SoundNew ''mechanical'', SoundAttachToMesh r,
                      SoundPlay, SetTimeout (RestoreScaling r) 200]"
    and "meshes (state_of (onMechanicalElementActivated r s)) =
           (meshes s)(r := (meshes s r)\<lparr>scaling := Vector3 1.2 1.2 1.2\<rparr>)"
    and "particleSystems (state_of (onMechanicalElementActivated r s)) =
           (particleSystems s)(''main'' \<mapsto> ps\<lparr>emitter := EmitterPositionOf r, started := True\<rparr>)"
    and "clock (state_of (onMechanicalElementActivated r s)) = clock s"
    and "triggerObservers (state_of (onMechanicalElementActivated r s)) = triggerObservers s"
    and "xrHelper (state_of (onMechanicalElementActivated r s)) = xrHelper s"
    and "uncaught (state_of (onMechanicalElementActivated r s)) = uncaught s"
  using assms
  by (simp_all add: onMechanicalElementActivated_def Let_def setTimeout_def updateMesh_def)

lemma pressed_returns:
  assumes "particleSystems s ''main'' = Some ps"
  shows "onButtonPressed r s = Done (state_of (onButtonPressed r s))"
  using assms
  by (simp add: onButtonPressed_def onMechanicalElementActivated_def Let_def setTimeout_def
      updateMesh_def)

lemma pressed_fields:
  assumes "particleSystems s ''main'' = Some ps"
  shows "sounds (state_of (onButtonPressed r s)) =
           sounds s @ [\<lparr>soundName = ''mechanical'', url = ''path/to/mechanical-sound.mp3'',
                        spatialSound = True, attachedTo = Some r, playing = True\<rparr>]"
    and "timers (state_of (onButtonPressed r s)) =
           timers s @ [(clock s + 100, ReleaseButton r), (clock s + 200, RestoreScaling r)]"
    and "trace (state_of (onButtonPressed r s)) =
           trace s @ [SetTimeout (ReleaseButton r) 100, ParticleStart ''main'',
                      SoundNew ''mechanical'', SoundAttachToMesh r, SoundPlay,
                      SetTimeout (RestoreScaling r) 200]"
    and "meshes (state_of (onButtonPressed r s)) =
           (meshes s)(r := (meshes s r)\<lparr>
              position := (position (meshes s r))\<lparr>vz := vz (position (meshes s r)) - 0.02\<rparr>,
              scaling := Vector3 1.2 1.2 1.2\<rparr>)"
    and "particleSystems (state_of (onButtonPressed r s)) =
           (particleSystems s)(''main'' \<mapsto> ps\<lparr>emitter := EmitterPositionOf r, started := True\<rparr>)"
    and "clock (state_of (onButtonPressed r s)) = clock s"
    and "triggerObservers (state_of (onButtonPressed r s)) = triggerObservers s"
    and "xrHelper (state_of (onButtonPressed r s)) = xrHelper s"
    and "uncaught (state_of (onButtonPressed r s)) = uncaught s"
  using assms
  by (simp_all add: onButtonPressed_def onMechanicalElementActivated_def Let_def
      setTimeout_def updateMesh_def)

lemma fire_frame:
  "sounds (fire t s) = sounds s" "timers (fire t s) = timers s" "trace (fire t s) = trace s"
  "particleSystems (fire t s) = particleSystems s" "clock (fire t s) = clock s"
  "triggerObservers (fire t s) = triggerObservers s" "xrHelper (fire t s) = xrHelper s"
  "uncaught (fire t s) = uncaught s"
  "actionManager (meshes (fire t s) r) = actionManager (meshes s r)"
  by (cases t; cases "snd t"; simp add: updateMesh_def)+

lemma fold_fire_frame:
  "sounds (fold fire ts s) = sounds s" "timers (fold fire ts s) = timers s"
  "trace (fold fire ts s) = trace s"
  "particleSystems (fold fire ts s) = particleSystems s" "clock (fold fire ts s) = clock s"
  "triggerObservers (fold fire ts s) = triggerObservers s" "xrHelper (fold fire ts s) = xrHelper s"
  "uncaught (fold fire ts s) = uncaught s"
  "actionManager (meshes (fold fire ts s) r) = actionManager (meshes s r)"
  by (induction ts arbitrary: s; simp add: fire_frame)+

lemma elapse_frame:
  "sounds (elapse dt s) = sounds s" "trace (elapse dt s) = trace s"
  "particleSystems (elapse dt s) = particleSystems s" "clock (elapse dt s) = clock s + dt"
  "triggerObservers (elapse dt s) = triggerObservers s" "xrHelper (elapse dt s) = xrHelper s"
  "uncaught (elapse dt s) = uncaught s"
  "actionManager (meshes (elapse dt s) r) = actionManager (meshes s r)"
  "timers (elapse dt s) = filter (\<lambda>t. clock s + dt < fst t) (timers s)"
  by (simp_all add: elapse_def Let_def fold_fire_frame)

section \<open>The controller path\<close>

lemma settle_notifyTrigger:
  "settle (notifyTrigger obs c ev pick s) = s \<or>
   settle (notifyTrigger obs c ev pick s) =
     s\<lparr>uncaught := uncaught s @ [TypeError ''onControllerInteraction is not a function'']\<rparr>"
  using notifyTrigger_cases [of obs c ev pick s] by auto

lemma trigger_step_frame:
  "trace (step (TriggerStateChanged c ev pick) s) = trace s"
  "sounds (step (TriggerStateChanged c ev pick) s) = sounds s"
  "timers (step (TriggerStateChanged c ev pick) s) = timers s"
  "meshes (step (TriggerStateChanged c ev pick) s) = meshes s"
  "particleSystems (step (TriggerStateChanged c ev pick) s) = particleSystems s"
  "triggerObservers (step (TriggerStateChanged c ev pick) s) = triggerObservers s"
  "xrHelper (step (TriggerStateChanged c ev pick) s) = xrHelper s"
  "clock (step (TriggerStateChanged c ev pick) s) = clock s"
  using settle_notifyTrigger [of "triggerObservers s" c ev pick s] by auto

text \<open>
  C3. When the trigger is pressed and the ray hits a mesh, the observer calls
  \<open>this.onControllerInteraction(pick.pickedMesh)\<close>. No member of the class has that
  name, so the call throws; the state at the throw is the state before the press, so
  neither \<open>onMechanicalElementActivated\<close> nor \<open>onButtonPressed\<close> has run.
\<close>

theorem controller_hit_calls_undefined_method:
  assumes "pressed ev" and "hit pick" and "pickedMesh pick = Some m"
  shows "''onControllerInteraction'' \<notin> set class_members \<and>
         map_of mesh_methods ''onControllerInteraction'' = None \<and>
         onTriggerStateChanged ev pick s = call_this ''onControllerInteraction'' m s \<and>
         onTriggerStateChanged ev pick s =
           Threw (TypeError ''onControllerInteraction is not a function'') s"
  using assms
  by (simp add: class_members_def mesh_methods_def onTriggerStateChanged_def call_this_def)

theorem controller_hit_calls_undefined_method_witness:
  "pressed \<lparr>pressed = True\<rparr> \<and> hit \<lparr>hit = True, pickedMesh = Some (Mechanical 0)\<rparr> \<and>
   pickedMesh \<lparr>hit = True, pickedMesh = Some (Mechanical 0)\<rparr> = Some (Mechanical 0) \<and>
   onTriggerStateChanged \<lparr>pressed = True\<rparr> \<lparr>hit = True, pickedMesh = Some (Mechanical 0)\<rparr>
       (scene0 XRCreated) =
     Threw (TypeError ''onControllerInteraction is not a function'') (scene0 XRCreated)"
proof -
  have p: "pressed \<lparr>pressed = True\<rparr>"
    by simp
  have h: "hit \<lparr>hit = True, pickedMesh = Some (Mechanical 0)\<rparr>"
    by simp
  have m: "pickedMesh \<lparr>hit = True, pickedMesh = Some (Mechanical 0)\<rparr> = Some (Mechanical 0)"
    by simp
  from controller_hit_calls_undefined_method [OF p h m, of "scene0 XRCreated"] p h m
  show ?thesis
    by blast
qed

text \<open>
  C4. A trigger press whose ray hits nothing, or hits a mesh that has no pick action
  registered, triggers no effect and no feedback: the observer leaves the state as it
  was, and the notification changes neither the meshes nor the sounds, the timers, the
  particle systems or the trace of requests.
\<close>

theorem controller_miss_no_activation:
  assumes "\<not> hit pick \<or> pickedMesh pick = None \<or>
           (\<exists>m. pickedMesh pick = Some m \<and> actionManager (meshes s m) = None)"
  shows "state_of (onTriggerStateChanged ev pick s) = s \<and>
         trace (step (TriggerStateChanged c ev pick) s) = trace s \<and>
         sounds (step (TriggerStateChanged c ev pick) s) = sounds s \<and>
         timers (step (TriggerStateChanged c ev pick) s) = timers s \<and>
         meshes (step (TriggerStateChanged c ev pick) s) = meshes s \<and>
         particleSystems (step (TriggerStateChanged c ev pick) s) = particleSystems s"
proof -
  from trigger_handler_cases [of ev pick s]
  have "state_of (onTriggerStateChanged ev pick s) = s"
    by auto
  then show ?thesis
    by (simp add: trigger_step_frame del: step.simps)
qed

theorem controller_miss_no_activation_witness:
  "actionManager (meshes (run [ControllerModelLoaded 0] (scene0 XRCreated)) Ground) = None \<and>
   triggerObservers (run [ControllerModelLoaded 0] (scene0 XRCreated)) = [0] \<and>
   trace (step (TriggerStateChanged 0 \<lparr>pressed = True\<rparr> \<lparr>hit = True, pickedMesh = Some Ground\<rparr>)
            (run [ControllerModelLoaded 0] (scene0 XRCreated))) = [] \<and>
   sounds (step (TriggerStateChanged 0 \<lparr>pressed = True\<rparr> \<lparr>hit = True, pickedMesh = Some Ground\<rparr>)
            (run [ControllerModelLoaded 0] (scene0 XRCreated))) = []"
proof -
  have a: "actionManager (meshes (run [ControllerModelLoaded 0] (scene0 XRCreated)) Ground) = None"
    by (simp add: run_def scene0_xrHelper setupControllerInteractions_def scene0_actionManager)
  have o: "triggerObservers (run [ControllerModelLoaded 0] (scene0 XRCreated)) = [0]"
    by (simp add: run_def scene0_xrHelper setupControllerInteractions_def scene0_fields)
  have f: "trace (run [ControllerModelLoaded 0] (scene0 XRCreated)) = []"
          "sounds (run [ControllerModelLoaded 0] (scene0 XRCreated)) = []"
    by (simp_all add: run_def scene0_xrHelper setupControllerInteractions_def scene0_fields)
  from a have h: "\<not> hit \<lparr>hit = True, pickedMesh = Some Ground\<rparr> \<or>
      pickedMesh \<lparr>hit = True, pickedMesh = Some Ground\<rparr> = None \<or>
      (\<exists>m. pickedMesh \<lparr>hit = True, pickedMesh = Some Ground\<rparr> = Some m \<and>
         actionManager (meshes (run [ControllerModelLoaded 0] (scene0 XRCreated)) m) = None)"
    by simp
  from controller_miss_no_activation [OF h, of "\<lparr>pressed = True\<rparr>" 0] a o f
  show ?thesis
    by (simp del: step.simps)
qed

section \<open>What every step preserves\<close>

lemma settle_frame:
  "xrHelper (settle out) = xrHelper (state_of out)"
  "triggerObservers (settle out) = triggerObservers (state_of out)"
  "particleSystems (settle out) = particleSystems (state_of out)"
  "meshes (settle out) = meshes (state_of out)"
  "sounds (settle out) = sounds (state_of out)"
  "timers (settle out) = timers (state_of out)"
  "trace (settle out) = trace (state_of out)"
  "clock (settle out) = clock (state_of out)"
  by (cases out; simp)+

lemma execute_frame:
  "xrHelper (state_of (execute a s)) = xrHelper s"
  "triggerObservers (state_of (execute a s)) = triggerObservers s"
  "actionManager (meshes (state_of (execute a s)) r) = actionManager (meshes s r)"
  "(particleSystems (state_of (execute a s)) ''main'' = None) = (particleSystems s ''main'' = None)"
  by (cases a; simp add: onMechanicalElementActivated_def onButtonPressed_def Let_def
        setTimeout_def updateMesh_def split: option.split)+

lemma processTrigger_frame:
  "xrHelper (state_of (processTrigger acts s)) = xrHelper s \<and>
   triggerObservers (state_of (processTrigger acts s)) = triggerObservers s \<and>
   actionManager (meshes (state_of (processTrigger acts s)) r) = actionManager (meshes s r) \<and>
   (particleSystems (state_of (processTrigger acts s)) ''main'' = None) =
     (particleSystems s ''main'' = None)"
proof (induction acts arbitrary: s)
  case Nil
  then show ?case by simp
next
  case (Cons a acts)
  show ?case
  proof (cases "execute a s")
    case (Done s')
    then have "state_of (execute a s) = s'" by simp
    with execute_frame [of a s] Cons [of s'] Done show ?thesis
      by (simp del: execute.simps)
  next
    case (Threw e s')
    then have "state_of (execute a s) = s'" by simp
    with execute_frame [of a s] Threw show ?thesis
      by (simp del: execute.simps)
  qed
qed

lemma pointerPick_frame:
  "xrHelper (state_of (pointerPick p s)) = xrHelper s"
  "triggerObservers (state_of (pointerPick p s)) = triggerObservers s"
  "actionManager (meshes (state_of (pointerPick p s)) r) = actionManager (meshes s r)"
  "(particleSystems (state_of (pointerPick p s)) ''main'' = None) =
     (particleSystems s ''main'' = None)"
  using processTrigger_frame [of _ s r]
  by (simp_all add: pointerPick_def split: option.split)

lemma applyClip_frame:
  "xrHelper (applyClip r from to loop ms a s) = xrHelper s"
  "triggerObservers (applyClip r from to loop ms a s) = triggerObservers s"
  "particleSystems (applyClip r from to loop ms a s) = particleSystems s"
  "sounds (applyClip r from to loop ms a s) = sounds s"
  "timers (applyClip r from to loop ms a s) = timers s"
  "trace (applyClip r from to loop ms a s) = trace s"
  "clock (applyClip r from to loop ms a s) = clock s"
  "renderLoop (applyClip r from to loop ms a s) = renderLoop s"
  "beforeRender (applyClip r from to loop ms a s) = beforeRender s"
  "animatables (applyClip r from to loop ms a s) = animatables s"
  "actionManager (meshes (applyClip r from to loop ms a s) q) = actionManager (meshes s q)"
  "scaling (meshes (applyClip r from to loop ms a s) q) = scaling (meshes s q)"
  "position (meshes (applyClip r from to loop ms a s) q) = position (meshes s q)"
  "animations (meshes (applyClip r from to loop ms a s) q) = animations (meshes s q)"
  by (simp_all add: applyClip_def updateMesh_def)

lemma fold_applyClip_frame:
  "xrHelper (fold (applyClip r from to loop ms) as s) = xrHelper s"
  "triggerObservers (fold (applyClip r from to loop ms) as s) = triggerObservers s"
  "particleSystems (fold (applyClip r from to loop ms) as s) = particleSystems s"
  "sounds (fold (applyClip r from to loop ms) as s) = sounds s"
  "timers (fold (applyClip r from to loop ms) as s) = timers s"
  "trace (fold (applyClip r from to loop ms) as s) = trace s"
  "clock (fold (applyClip r from to loop ms) as s) = clock s"
  "renderLoop (fold (applyClip r from to loop ms) as s) = renderLoop s"
  "beforeRender (fold (applyClip r from to loop ms) as s) = beforeRender s"
  "animatables (fold (applyClip r from to loop ms) as s) = animatables s"
  "actionManager (meshes (fold (applyClip r from to loop ms) as s) q) = actionManager (meshes s q)"
  "scaling (meshes (fold (applyClip r from to loop ms) as s) q) = scaling (meshes s q)"
  "position (meshes (fold (applyClip r from to loop ms) as s) q) = position (meshes s q)"
  "animations (meshes (fold (applyClip r from to loop ms) as s) q) = animations (meshes s q)"
  by (induction as arbitrary: s; simp add: applyClip_frame)+

lemma animateTarget_frame:
  "xrHelper (animateTarget ms t s) = xrHelper s"
  "triggerObservers (animateTarget ms t s) = triggerObservers s"
  "particleSystems (animateTarget ms t s) = particleSystems s"
  "sounds (animateTarget ms t s) = sounds s"
  "timers (animateTarget ms t s) = timers s"
  "trace (animateTarget ms t s) = trace s"
  "clock (animateTarget ms t s) = clock s"
  "renderLoop (animateTarget ms t s) = renderLoop s"
  "beforeRender (animateTarget ms t s) = beforeRender s"
  "animatables (animateTarget ms t s) = animatables s"
  "actionManager (meshes (animateTarget ms t s) q) = actionManager (meshes s q)"
  "scaling (meshes (animateTarget ms t s) q) = scaling (meshes s q)"
  "position (meshes (animateTarget ms t s) q) = position (meshes s q)"
  "animations (meshes (animateTarget ms t s) q) = animations (meshes s q)"
  by (cases t; simp add: fold_applyClip_frame)+

lemma fold_animateTarget_frame:
  "xrHelper (fold (animateTarget ms) ts s) = xrHelper s"
  "triggerObservers (fold (animateTarget ms) ts s) = triggerObservers s"
  "particleSystems (fold (animateTarget ms) ts s) = particleSystems s"
  "sounds (fold (animateTarget ms) ts s) = sounds s"
  "timers (fold (animateTarget ms) ts s) = timers s"
  "trace (fold (animateTarget ms) ts s) = trace s"
  "clock (fold (animateTarget ms) ts s) = clock s"
  "renderLoop (fold (animateTarget ms) ts s) = renderLoop s"
  "beforeRender (fold (animateTarget ms) ts s) = beforeRender s"
  "animatables (fold (animateTarget ms) ts s) = animatables s"
  "actionManager (meshes (fold (animateTarget ms) ts s) q) = actionManager (meshes s q)"
  "scaling (meshes (fold (animateTarget ms) ts s) q) = scaling (meshes s q)"
  "position (meshes (fold (animateTarget ms) ts s) q) = position (meshes s q)"
  "animations (meshes (fold (animateTarget ms) ts s) q) = animations (meshes s q)"
  by (induction ts arbitrary: s; simp add: animateTarget_frame del: animateTarget.simps)+

lemma animate_frame:
  "xrHelper (animate s) = xrHelper s"
  "triggerObservers (animate s) = triggerObservers s"
  "particleSystems (animate s) = particleSystems s"
  "sounds (animate s) = sounds s"
  "timers (animate s) = timers s"
  "trace (animate s) = trace s"
  "clock (animate s) = clock s"
  "renderLoop (animate s) = renderLoop s"
  "beforeRender (animate s) = beforeRender s"
  "animatables (animate s) = animatables s"
  "actionManager (meshes (animate s) q) = actionManager (meshes s q)"
  "scaling (meshes (animate s) q) = scaling (meshes s q)"
  "position (meshes (animate s) q) = position (meshes s q)"
  "animations (meshes (animate s) q) = animations (meshes s q)"
  by (simp_all add: animate_def fold_animateTarget_frame)

lemma render_cb_frame:
  "xrHelper (render_cb_run cb s) = xrHelper s"
  "triggerObservers (render_cb_run cb s) = triggerObservers s"
  "particleSystems (render_cb_run cb s) = particleSystems s"
  "sounds (render_cb_run cb s) = sounds s"
  "timers (render_cb_run cb s) = timers s"
  "trace (render_cb_run cb s) = trace s"
  "clock (render_cb_run cb s) = clock s"
  "renderLoop (render_cb_run cb s) = renderLoop s"
  "beforeRender (render_cb_run cb s) = beforeRender s"
  "animatables (render_cb_run cb s) = animatables s"
  "actionManager (meshes (render_cb_run cb s) q) = actionManager (meshes s q)"
  "scaling (meshes (render_cb_run cb s) q) = scaling (meshes s q)"
  "position (meshes (render_cb_run cb s) q) = position (meshes s q)"
  "animations (meshes (render_cb_run cb s) q) = animations (meshes s q)"
  by (cases cb; simp add: updateMesh_def)+

lemma fold_render_frame:
  "xrHelper (fold render_cb_run cbs s) = xrHelper s"
  "triggerObservers (fold render_cb_run cbs s) = triggerObservers s"
  "particleSystems (fold render_cb_run cbs s) = particleSystems s"
  "sounds (fold render_cb_run cbs s) = sounds s"
  "timers (fold render_cb_run cbs s) = timers s"
  "trace (fold render_cb_run cbs s) = trace s"
  "clock (fold render_cb_run cbs s) = clock s"
  "renderLoop (fold render_cb_run cbs s) = renderLoop s"
  "beforeRender (fold render_cb_run cbs s) = beforeRender s"
  "animatables (fold render_cb_run cbs s) = animatables s"
  "actionManager (meshes (fold render_cb_run cbs s) q) = actionManager (meshes s q)"
  "scaling (meshes (fold render_cb_run cbs s) q) = scaling (meshes s q)"
  "position (meshes (fold render_cb_run cbs s) q) = position (meshes s q)"
  "animations (meshes (fold render_cb_run cbs s) q) = animations (meshes s q)"
  by (induction cbs arbitrary: s; simp add: render_cb_frame)+

lemma render_step_frame:
  "xrHelper (step RenderFrame s) = xrHelper s"
  "triggerObservers (step RenderFrame s) = triggerObservers s"
  "particleSystems (step RenderFrame s) = particleSystems s"
  "sounds (step RenderFrame s) = sounds s"
  "timers (step RenderFrame s) = timers s"
  "trace (step RenderFrame s) = trace s"
  "clock (step RenderFrame s) = clock s"
  "renderLoop (step RenderFrame s) = renderLoop s"
  "beforeRender (step RenderFrame s) = beforeRender s"
  "animatables (step RenderFrame s) = animatables s"
  "actionManager (meshes (step RenderFrame s) q) = actionManager (meshes s q)"
  "scaling (meshes (step RenderFrame s) q) = scaling (meshes s q)"
  "position (meshes (step RenderFrame s) q) = position (meshes s q)"
  "animations (meshes (step RenderFrame s) q) = animations (meshes s q)"
  by (simp_all add: fold_render_frame animate_frame)

lemma step_xrHelper: "xrHelper (step e s) = xrHelper s"
proof (cases e)
  case (PointerPick p)
  then show ?thesis by (simp add: settle_frame pointerPick_frame)
next
  case (Elapse dt)
  then show ?thesis by (simp add: elapse_frame)
next
  case RenderFrame
  then show ?thesis by (simp add: render_step_frame del: step.simps)
next
  case (ControllerModelLoaded c)
  then show ?thesis by (simp add: setupControllerInteractions_def split: option.split)
next
  case (TriggerStateChanged c ev pick)
  then show ?thesis by (simp add: trigger_step_frame del: step.simps)
qed

lemma step_triggerObservers:
  "xrHelper s = None \<Longrightarrow> triggerObservers (step e s) = triggerObservers s"
proof (cases e)
  case (PointerPick p)
  then show ?thesis by (simp add: settle_frame pointerPick_frame)
next
  case (Elapse dt)
  then show ?thesis by (simp add: elapse_frame)
next
  case RenderFrame
  then show ?thesis by (simp add: render_step_frame del: step.simps)
next
  case (ControllerModelLoaded c)
  assume "xrHelper s = None"
  with ControllerModelLoaded show ?thesis by simp
next
  case (TriggerStateChanged c ev pick)
  then show ?thesis by (simp add: trigger_step_frame del: step.simps)
qed

lemma step_wired: "wired s \<Longrightarrow> wired (step e s)"
proof (cases e)
  case (PointerPick p)
  assume "wired s"
  with PointerPick show ?thesis by (simp add: wired_def settle_frame pointerPick_frame)
next
  case (Elapse dt)
  assume "wired s"
  with Elapse show ?thesis by (simp add: wired_def elapse_frame)
next
  case RenderFrame
  assume "wired s"
  with RenderFrame show ?thesis by (simp add: wired_def render_step_frame del: step.simps)
next
  case (ControllerModelLoaded c)
  assume "wired s"
  with ControllerModelLoaded show ?thesis
    by (simp add: wired_def setupControllerInteractions_def split: option.split)
next
  case (TriggerStateChanged c ev pick)
  assume "wired s"
  with TriggerStateChanged show ?thesis
    by (simp add: wired_def trigger_step_frame del: step.simps)
qed

lemma run_Nil: "run [] s = s"
  by (simp add: run_def)

lemma run_Cons: "run (e # evs) s = run evs (step e s)"
  by (simp add: run_def)


lemma run_wired: "wired s \<Longrightarrow> wired (run evs s)"
  by (induction evs arbitrary: s) (simp_all add: run_Nil run_Cons step_wired del: step.simps)

lemma run_xrHelper: "xrHelper (run evs s) = xrHelper s"
  by (induction evs arbitrary: s) (simp_all add: run_Nil run_Cons step_xrHelper del: step.simps)

lemma run_no_observers:
  "xrHelper s = None \<Longrightarrow> triggerObservers (run evs s) = triggerObservers s"
  by (induction evs arbitrary: s)
     (simp_all add: run_Nil run_Cons step_xrHelper step_triggerObservers del: step.simps)

lemma pointerPick_wired:
  assumes "wired s"
  shows "i < 8 \<Longrightarrow> pointerPick (Mechanical i) s = onMechanicalElementActivated (Mechanical i) s"
    and "j < 10 \<Longrightarrow> pointerPick (Button j) s = onButtonPressed (Button j) s"
    and "pick_actions r = None \<Longrightarrow> pointerPick r s = Done s"
proof -
  from assms obtain ps where ps: "particleSystems s ''main'' = Some ps"
    by (auto simp add: wired_def)
  from assms have am: "\<And>r. actionManager (meshes s r) = pick_actions r"
    by (simp add: wired_def)
  show "i < 8 \<Longrightarrow> pointerPick (Mechanical i) s = onMechanicalElementActivated (Mechanical i) s"
    using activated_returns [OF ps, of "Mechanical i"]
    by (cases "onMechanicalElementActivated (Mechanical i) s") (simp_all add: pointerPick_def am)
  show "j < 10 \<Longrightarrow> pointerPick (Button j) s = onButtonPressed (Button j) s"
    using pressed_returns [OF ps, of "Button j"]
    by (cases "onButtonPressed (Button j) s") (simp_all add: pointerPick_def am)
  show "pick_actions r = None \<Longrightarrow> pointerPick r s = Done s"
    by (simp add: pointerPick_def am)
qed

lemma settle_returned: "out = Done (state_of out) \<Longrightarrow> settle out = state_of out"
  by (cases out) simp_all

section \<open>Holding the trigger\<close>

text \<open>
  C5. A controller whose model has loaded reports the trigger pressed while its ray
  hits \<open>mechanical0\<close>, and reports it pressed again while it is held. Each notification
  ends in the call of the undefined \<open>onControllerInteraction\<close>: nothing is requested
  from the particle, audio or timer collaborators and the mesh keeps its scale, where a
  pointer pick of the same mesh requests all of them.
\<close>

theorem held_trigger_produces_no_activation:
  "trace (run [ControllerModelLoaded 0,
               TriggerStateChanged 0 \<lparr>pressed = True\<rparr> \<lparr>hit = True, pickedMesh = Some (Mechanical 0)\<rparr>,
               TriggerStateChanged 0 \<lparr>pressed = True\<rparr> \<lparr>hit = True, pickedMesh = Some (Mechanical 0)\<rparr>]
          (scene0 XRCreated)) = [] \<and>
   uncaught (run [ControllerModelLoaded 0,
               TriggerStateChanged 0 \<lparr>pressed = True\<rparr> \<lparr>hit = True, pickedMesh = Some (Mechanical 0)\<rparr>,
               TriggerStateChanged 0 \<lparr>pressed = True\<rparr> \<lparr>hit = True, pickedMesh = Some (Mechanical 0)\<rparr>]
          (scene0 XRCreated)) =
     [TypeError ''onControllerInteraction is not a function'',
      TypeError ''onControllerInteraction is not a function''] \<and>
   scaling (meshes (run [ControllerModelLoaded 0,
               TriggerStateChanged 0 \<lparr>pressed = True\<rparr> \<lparr>hit = True, pickedMesh = Some (Mechanical 0)\<rparr>,
               TriggerStateChanged 0 \<lparr>pressed = True\<rparr> \<lparr>hit = True, pickedMesh = Some (Mechanical 0)\<rparr>]
          (scene0 XRCreated)) (Mechanical 0)) = Vector3 1 1 1 \<and>
   trace (run [PointerPick (Mechanical 0)] (scene0 XRCreated)) =
     [ParticleStart ''main'', SoundNew ''mechanical'', SoundAttachToMesh (Mechanical 0),
      SoundPlay, SetTimeout (RestoreScaling (Mechanical 0)) 200]"
proof -
  let ?s1 = "setupControllerInteractions 0 (scene0 XRCreated)"
  let ?err = "TypeError ''onControllerInteraction is not a function''"
  let ?press = "TriggerStateChanged 0 \<lparr>pressed = True\<rparr> \<lparr>hit = True, pickedMesh = Some (Mechanical 0)\<rparr>"
  have s1: "step (ControllerModelLoaded 0) (scene0 XRCreated) = ?s1"
    by (simp add: scene0_xrHelper)
  have obs: "triggerObservers ?s1 = [0]"
    by (simp add: setupControllerInteractions_def scene0_fields)
  have press: "step ?press s = s\<lparr>uncaught := uncaught s @ [?err]\<rparr>"
    if "triggerObservers s = [0]" for s
    using that by (simp add: onTriggerStateChanged_def call_undefined_method)
  have s2: "step ?press ?s1 = ?s1\<lparr>uncaught := uncaught ?s1 @ [?err]\<rparr>"
    using obs by (rule press)
  have obs2: "triggerObservers (?s1\<lparr>uncaught := uncaught ?s1 @ [?err]\<rparr>) = [0]"
    using obs by simp
  have s3: "step ?press (?s1\<lparr>uncaught := uncaught ?s1 @ [?err]\<rparr>) =
              ?s1\<lparr>uncaught := uncaught ?s1 @ [?err, ?err]\<rparr>"
    using press [OF obs2] by simp
  have r: "run [ControllerModelLoaded 0, ?press, ?press] (scene0 XRCreated) =
             ?s1\<lparr>uncaught := uncaught ?s1 @ [?err, ?err]\<rparr>"
    unfolding run_Cons run_Nil s1 s2 s3 ..
  have p: "run [PointerPick (Mechanical 0)] (scene0 XRCreated) =
             state_of (onMechanicalElementActivated (Mechanical 0) (scene0 XRCreated))"
    using settle_returned [OF activated_returns [OF scene0_fields(8), of "Mechanical 0" XRCreated]]
      pointerPick_wired(1) [OF scene0_wired, of 0 XRCreated]
    by (simp add: run_Cons run_Nil)
  show ?thesis
    unfolding r p
    by (simp add: setupControllerInteractions_def scene0_fields scene0_scaling
        activated_fields [OF scene0_fields(8)])
qed

section \<open>Without XR\<close>

text \<open>
  C6. When \<open>WebXRDefaultExperience.CreateAsync\<close> rejects, \<open>initialize\<close> returns
  normally. From then on, whatever events arrive, no controller has a trigger observer
  attached, so a trigger notification or a loaded controller model leaves the state
  untouched; and a pointer pick of a mechanical element or of a button runs its
  callback, which returns normally.
\<close>

theorem xr_unavailable_degrades_to_pointer_only:
  "initialize XRRejected constructor = Done (scene0 XRRejected) \<and>
   triggerObservers (run evs (scene0 XRRejected)) = [] \<and>
   step (TriggerStateChanged c ev pick) (run evs (scene0 XRRejected)) = run evs (scene0 XRRejected) \<and>
   step (ControllerModelLoaded c) (run evs (scene0 XRRejected)) = run evs (scene0 XRRejected) \<and>
   (i < 8 \<longrightarrow>
      pointerPick (Mechanical i) (run evs (scene0 XRRejected)) =
        onMechanicalElementActivated (Mechanical i) (run evs (scene0 XRRejected)) \<and>
      (\<exists>s'. onMechanicalElementActivated (Mechanical i) (run evs (scene0 XRRejected)) = Done s')) \<and>
   (j < 10 \<longrightarrow>
      pointerPick (Button j) (run evs (scene0 XRRejected)) =
        onButtonPressed (Button j) (run evs (scene0 XRRejected)) \<and>
      (\<exists>s'. onButtonPressed (Button j) (run evs (scene0 XRRejected)) = Done s'))"
proof -
  let ?s = "run evs (scene0 XRRejected)"
  have init: "initialize XRRejected constructor = Done (scene0 XRRejected)"
    by (rule initialize_returns)
  have xr: "xrHelper ?s = None"
    by (simp add: run_xrHelper scene0_xrHelper)
  have obs: "triggerObservers ?s = []"
    by (simp add: run_no_observers scene0_xrHelper scene0_fields)
  have w: "wired ?s"
    by (rule run_wired) (rule scene0_wired)
  then obtain ps where ps: "particleSystems ?s ''main'' = Some ps"
    by (auto simp add: wired_def)
  have trig: "step (TriggerStateChanged c ev pick) ?s = ?s"
    by (simp add: obs)
  have load: "step (ControllerModelLoaded c) ?s = ?s"
    by (simp add: xr)
  have mech: "i < 8 \<longrightarrow>
      pointerPick (Mechanical i) ?s = onMechanicalElementActivated (Mechanical i) ?s \<and>
      (\<exists>s'. onMechanicalElementActivated (Mechanical i) ?s = Done s')"
    using pointerPick_wired(1) [OF w, of i] activated_returns [OF ps, of "Mechanical i"]
    by blast
  have butt: "j < 10 \<longrightarrow>
      pointerPick (Button j) ?s = onButtonPressed (Button j) ?s \<and>
      (\<exists>s'. onButtonPressed (Button j) ?s = Done s')"
    using pointerPick_wired(2) [OF w, of j] pressed_returns [OF ps, of "Button j"]
    by blast
  from init obs trig load mech butt show ?thesis
    by blast
qed

theorem xr_unavailable_degrades_to_pointer_only_witness:
  "(3::nat) < 8 \<and> (4::nat) < 10 \<and>
   step (TriggerStateChanged 0 \<lparr>pressed = True\<rparr> \<lparr>hit = True, pickedMesh = Some (Mechanical 3)\<rparr>)
     (run [ControllerModelLoaded 0, PointerPick (Button 4)] (scene0 XRRejected)) =
     run [ControllerModelLoaded 0, PointerPick (Button 4)] (scene0 XRRejected) \<and>
   pointerPick (Mechanical 3) (run [ControllerModelLoaded 0, PointerPick (Button 4)] (scene0 XRRejected)) =
     onMechanicalElementActivated (Mechanical 3)
       (run [ControllerModelLoaded 0, PointerPick (Button 4)] (scene0 XRRejected)) \<and>
   pointerPick (Button 4) (run [ControllerModelLoaded 0, PointerPick (Button 4)] (scene0 XRRejected)) =
     onButtonPressed (Button 4)
       (run [ControllerModelLoaded 0, PointerPick (Button 4)] (scene0 XRRejected))"
proof -
  have a: "(3::nat) < 8" and b: "(4::nat) < 10"
    by simp_all
  from xr_unavailable_degrades_to_pointer_only
    [of "[ControllerModelLoaded 0, PointerPick (Button 4)]" 0 "\<lparr>pressed = True\<rparr>"
        "\<lparr>hit = True, pickedMesh = Some (Mechanical 3)\<rparr>" 3 4] a b
  show ?thesis
    by blast
qed

section \<open>Stepping a wired scene\<close>

lemma wired_particles: "wired s \<Longrightarrow> \<exists>ps. particleSystems s ''main'' = Some ps"
  by (auto simp add: wired_def)

lemma wired_activated: "wired s \<Longrightarrow> wired (state_of (onMechanicalElementActivated r s))"
  using execute_frame [of "ExecuteMechanicalActivated r" s]
  by (simp add: wired_def)

lemma wired_pressed: "wired s \<Longrightarrow> wired (state_of (onButtonPressed r s))"
  using execute_frame [of "ExecuteButtonPressed r" s]
  by (simp add: wired_def)

lemma wired_elapse: "wired s \<Longrightarrow> wired (elapse dt s)"
  by (simp add: wired_def elapse_frame)

lemma step_pick_mechanical:
  assumes "wired s" and "i < 8"
  shows "step (PointerPick (Mechanical i)) s = state_of (onMechanicalElementActivated (Mechanical i) s)"
proof -
  from assms(1) obtain ps where ps: "particleSystems s ''main'' = Some ps"
    by (auto dest: wired_particles)
  from settle_returned [OF activated_returns [OF ps]] pointerPick_wired(1) [OF assms]
  show ?thesis by simp
qed

lemma step_pick_button:
  assumes "wired s" and "j < 10"
  shows "step (PointerPick (Button j)) s = state_of (onButtonPressed (Button j) s)"
proof -
  from assms(1) obtain ps where ps: "particleSystems s ''main'' = Some ps"
    by (auto dest: wired_particles)
  from settle_returned [OF pressed_returns [OF ps]] pointerPick_wired(2) [OF assms]
  show ?thesis by simp
qed

lemma step_pick_inert:
  assumes "wired s" and "pick_actions r = None"
  shows "step (PointerPick r) s = s"
  using pointerPick_wired(3) [OF assms] by simp

lemma activated_wired:
  assumes "wired s"
  shows "sounds (state_of (onMechanicalElementActivated r s)) =
           sounds s @ [\<lparr>soundName = ''mechanical'', url = ''path/to/mechanical-sound.mp3'',
                        spatialSound = True, attachedTo = Some r, playing = True\<rparr>]"
    and "timers (state_of (onMechanicalElementActivated r s)) =
           timers s @ [(clock s + 200, RestoreScaling r)]"
    and "trace (state_of (onMechanicalElementActivated r s)) =
           trace s @ [ParticleStart ''main'', SoundNew ''mechanical'', SoundAttachToMesh r,
                      SoundPlay, SetTimeout (RestoreScaling r) 200]"
    and "meshes (state_of (onMechanicalElementActivated r s)) =
           (meshes s)(r := (meshes s r)\<lparr>scaling := Vector3 1.2 1.2 1.2\<rparr>)"
    and "clock (state_of (onMechanicalElementActivated r s)) = clock s"
proof -
  from assms obtain ps where ps: "particleSystems s ''main'' = Some ps"
    by (auto dest: wired_particles)
  note f = activated_fields [OF ps, of r]
  show "sounds (state_of (onMechanicalElementActivated r s)) =
           sounds s @ [\<lparr>soundName = ''mechanical'', url = ''path/to/mechanical-sound.mp3'',
                        spatialSound = True, attachedTo = Some r, playing = True\<rparr>]"
    by (rule f)
  show "timers (state_of (onMechanicalElementActivated r s)) =
           timers s @ [(clock s + 200, RestoreScaling r)]"
    by (rule f)
  show "trace (state_of (onMechanicalElementActivated r s)) =
           trace s @ [ParticleStart ''main'', SoundNew ''mechanical'', SoundAttachToMesh r,
                      SoundPlay, SetTimeout (RestoreScaling r) 200]"
    by (rule f)
  show "meshes (state_of (onMechanicalElementActivated r s)) =
           (meshes s)(r := (meshes s r)\<lparr>scaling := Vector3 1.2 1.2 1.2\<rparr>)"
    by (rule f)
  show "clock (state_of (onMechanicalElementActivated r s)) = clock s"
    by (rule f)
qed

lemma pressed_wired:
  assumes "wired s"
  shows "sounds (state_of (onButtonPressed r s)) =
           sounds s @ [\<lparr>soundName = ''mechanical'', url = ''path/to/mechanical-sound.mp3'',
                        spatialSound = True, attachedTo = Some r, playing = True\<rparr>]"
    and "timers (state_of (onButtonPressed r s)) =
           timers s @ [(clock s + 100, ReleaseButton r), (clock s + 200, RestoreScaling r)]"
    and "trace (state_of (onButtonPressed r s)) =
           trace s @ [SetTimeout (ReleaseButton r) 100, ParticleStart ''main'',
                      SoundNew ''mechanical'', SoundAttachToMesh r, SoundPlay,
                      SetTimeout (RestoreScaling r) 200]"
    and "meshes (state_of (onButtonPressed r s)) =
           (meshes s)(r := (meshes s r)\<lparr>
              position := (position (meshes s r))\<lparr>vz := vz (position (meshes s r)) - 0.02\<rparr>,
              scaling := Vector3 1.2 1.2 1.2\<rparr>)"
    and "clock (state_of (onButtonPressed r s)) = clock s"
proof -
  from assms obtain ps where ps: "particleSystems s ''main'' = Some ps"
    by (auto dest: wired_particles)
  note f = pressed_fields [OF ps, of r]
  show "sounds (state_of (onButtonPressed r s)) =
           sounds s @ [\<lparr>soundName = ''mechanical'', url = ''path/to/mechanical-sound.mp3'',
                        spatialSound = True, attachedTo = Some r, playing = True\<rparr>]"
    by (rule f)
  show "timers (state_of (onButtonPressed r s)) =
           timers s @ [(clock s + 100, ReleaseButton r), (clock s + 200, RestoreScaling r)]"
    by (rule f)
  show "trace (state_of (onButtonPressed r s)) =
           trace s @ [SetTimeout (ReleaseButton r) 100, ParticleStart ''main'',
                      SoundNew ''mechanical'', SoundAttachToMesh r, SoundPlay,
                      SetTimeout (RestoreScaling r) 200]"
    by (rule f)
  show "meshes (state_of (onButtonPressed r s)) =
           (meshes s)(r := (meshes s r)\<lparr>
              position := (position (meshes s r))\<lparr>vz := vz (position (meshes s r)) - 0.02\<rparr>,
              scaling := Vector3 1.2 1.2 1.2\<rparr>)"
    by (rule f)
  show "clock (state_of (onButtonPressed r s)) = clock s"
    by (rule f)
qed

lemma fire_meshes:
  "meshes (fire (due, RestoreScaling r) s) = (meshes s)(r := (meshes s r)\<lparr>scaling := Vector3 1 1 1\<rparr>)"
  "meshes (fire (due, ReleaseButton r) s) =
     (meshes s)(r := (meshes s r)\<lparr>position :=
        (position (meshes s r))\<lparr>vz := vz (position (meshes s r)) + 0.02\<rparr>\<rparr>)"
  by (simp_all add: updateMesh_def)

lemma fire_meshes_cong:
  assumes "meshes s = meshes s'"
  shows "meshes (fire t s) = meshes (fire t s')"
proof -
  obtain due cb where t: "t = (due, cb)"
    by (cases t)
  show ?thesis
  proof (cases cb)
    case (RestoreScaling r)
    show ?thesis
      unfolding t RestoreScaling fire_meshes assms ..
  next
    case (ReleaseButton r)
    show ?thesis
      unfolding t ReleaseButton fire_meshes assms ..
  qed
qed

lemma fold_fire_meshes:
  "meshes s = meshes s' \<Longrightarrow> meshes (fold fire ts s) = meshes (fold fire ts s')"
proof (induction ts arbitrary: s s')
  case Nil
  then show ?case by simp
next
  case (Cons t ts)
  from Cons.prems have "meshes (fire t s) = meshes (fire t s')"
    by (rule fire_meshes_cong)
  then have "meshes (fold fire ts (fire t s)) = meshes (fold fire ts (fire t s'))"
    by (rule Cons.IH)
  then show ?case
    by simp
qed

lemma elapse_meshes:
  "meshes (elapse dt s) =
     meshes (fold fire (sort_key fst (filter (\<lambda>t. fst t \<le> clock s + dt) (timers s))) s)"
  unfolding elapse_def Let_def
  by (rule fold_fire_meshes) simp

lemma step_sounds:
  assumes "wired s"
  shows "length (soundsPlayedOn r (step e s)) =
           length (soundsPlayedOn r s) + (if e = PointerPick r \<and> pick_actions r \<noteq> None then 1 else 0)"
proof (cases e)
  case (PointerPick p)
  show ?thesis
  proof (cases "pick_actions p")
    case None
    with PointerPick step_pick_inert [OF assms None] show ?thesis
      by (auto simp del: step.simps)
  next
    case (Some acts)
    show ?thesis
    proof (cases p)
      case (Mechanical i)
      with Some have "i < 8" by (simp split: if_splits)
      from step_pick_mechanical [OF assms this] PointerPick Mechanical Some show ?thesis
        by (auto simp add: soundsPlayedOn_def activated_wired [OF assms] simp del: step.simps)
    next
      case (Button j)
      with Some have "j < 10" by (simp split: if_splits)
      from step_pick_button [OF assms this] PointerPick Button Some show ?thesis
        by (auto simp add: soundsPlayedOn_def pressed_wired [OF assms] simp del: step.simps)
    qed (use Some in simp_all)
  qed
next
  case (Elapse dt)
  then show ?thesis by (simp add: soundsPlayedOn_def elapse_frame)
next
  case RenderFrame
  then show ?thesis by (simp add: soundsPlayedOn_def render_step_frame del: step.simps)
next
  case (ControllerModelLoaded c)
  then show ?thesis
    by (simp add: soundsPlayedOn_def setupControllerInteractions_def split: option.split)
next
  case (TriggerStateChanged c ev pick)
  then show ?thesis
    by (simp add: soundsPlayedOn_def trigger_step_frame del: step.simps)
qed

lemma run_sounds:
  "wired s \<Longrightarrow>
   length (soundsPlayedOn r (run evs s)) =
     length (soundsPlayedOn r s) + (if pick_actions r = None then 0 else count_list evs (PointerPick r))"
proof (induction evs arbitrary: s)
  case Nil
  then show ?case by (simp add: run_Nil)
next
  case (Cons e evs)
  from Cons.prems have "wired (step e s)"
    by (rule step_wired)
  from Cons.IH [OF this] step_sounds [OF Cons.prems, of r e] show ?case
    by (auto simp add: run_Cons simp del: step.simps)
qed

section \<open>Effects per activation\<close>

lemma run_Elapse: "run (Elapse dt # evs) s = run evs (elapse dt s)"
  by (simp add: run_Cons)

lemma run_pick_mechanical:
  "wired s \<Longrightarrow> i < 8 \<Longrightarrow>
   run (PointerPick (Mechanical i) # evs) s =
     run evs (state_of (onMechanicalElementActivated (Mechanical i) s))"
  by (simp add: run_Cons step_pick_mechanical del: step.simps)

lemma run_pick_button:
  "wired s \<Longrightarrow> j < 10 \<Longrightarrow>
   run (PointerPick (Button j) # evs) s = run evs (state_of (onButtonPressed (Button j) s))"
  by (simp add: run_Cons step_pick_button del: step.simps)

lemmas sim_rules = run_Nil run_Elapse run_pick_mechanical run_pick_button
  wired_activated wired_pressed wired_elapse scene0_wired activated_wired pressed_wired
  elapse_frame elapse_meshes updateMesh_def scene0_fields scene0_scaling

lemma pick_new_calls:
  assumes "wired s" and "pick_actions r \<noteq> None"
  shows "new_calls s (step (PointerPick r) s) =
           (case r of Button j \<Rightarrow> [SetTimeout (ReleaseButton r) 100] | _ \<Rightarrow> []) @
           [ParticleStart ''main'', SoundNew ''mechanical'', SoundAttachToMesh r, SoundPlay,
            SetTimeout (RestoreScaling r) 200]"
proof (cases r)
  case (Mechanical i)
  with assms(2) have "i < 8" by (simp split: if_splits)
  from step_pick_mechanical [OF assms(1) this] Mechanical show ?thesis
    by (simp add: new_calls_def activated_wired [OF assms(1)] del: step.simps)
next
  case (Button j)
  with assms(2) have "j < 10" by (simp split: if_splits)
  from step_pick_button [OF assms(1) this] Button show ?thesis
    by (simp add: new_calls_def pressed_wired [OF assms(1)] del: step.simps)
qed (use assms(2) in simp_all)

lemma pick_effects:
  assumes "wired s" and "pick_actions r \<noteq> None"
  shows "map_option emitter (particleSystems (step (PointerPick r) s) ''main'') =
           Some (EmitterPositionOf r) \<and>
         map_option started (particleSystems (step (PointerPick r) s) ''main'') = Some True \<and>
         sounds (step (PointerPick r) s) =
           sounds s @ [\<lparr>soundName = ''mechanical'', url = ''path/to/mechanical-sound.mp3'',
                        spatialSound = True, attachedTo = Some r, playing = True\<rparr>] \<and>
         trace (step (PointerPick r) s) =
           trace s @ (case r of Button j \<Rightarrow> [SetTimeout (ReleaseButton r) 100] | _ \<Rightarrow> []) @
           [ParticleStart ''main'', SoundNew ''mechanical'', SoundAttachToMesh r, SoundPlay,
            SetTimeout (RestoreScaling r) 200] \<and>
         timers (step (PointerPick r) s) =
           timers s @ (case r of Button j \<Rightarrow> [(clock s + 100, ReleaseButton r)] | _ \<Rightarrow> []) @
           [(clock s + 200, RestoreScaling r)]"
proof -
  from assms(1) obtain ps where ps: "particleSystems s ''main'' = Some ps"
    by (auto dest: wired_particles)
  show ?thesis
  proof (cases r)
    case (Mechanical i)
    with assms(2) have "i < 8" by (simp split: if_splits)
    from step_pick_mechanical [OF assms(1) this] Mechanical show ?thesis
      by (simp add: activated_fields [OF ps] del: step.simps)
  next
    case (Button j)
    with assms(2) have "j < 10" by (simp split: if_splits)
    from step_pick_button [OF assms(1) this] Button show ?thesis
      by (simp add: pressed_fields [OF ps] del: step.simps)
  qed (use assms(2) in simp_all)
qed

text \<open>
  C1, as the code has it. No activation is dropped or merged with an earlier one. After
  any sequence of events, the sounds created and played on a mesh are as many as the
  pointer picks of that mesh (none for a mesh without pick action). And a pick of a mesh
  with a pick action always does the same, whatever is still pending: the emitter of the
  particle system \<open>main\<close> is bound to the position of the mesh and the system is started;
  one new sound, attached to the mesh and played, is added behind the sounds there are;
  one timer for the scale (after one more for the position, for a button) is added
  behind the timers that are queued; and the requests are added to the trace in that
  order.
\<close>

theorem every_pick_requests_its_own_effect:
  "length (soundsPlayedOn r (run evs (scene0 xr))) =
     (if pick_actions r = None then 0 else count_list evs (PointerPick r)) \<and>
   (pick_actions r \<noteq> None \<longrightarrow>
      new_calls (run evs (scene0 xr)) (step (PointerPick r) (run evs (scene0 xr))) =
        (case r of Button j \<Rightarrow> [SetTimeout (ReleaseButton r) 100] | _ \<Rightarrow> []) @
        [ParticleStart ''main'', SoundNew ''mechanical'', SoundAttachToMesh r, SoundPlay,
         SetTimeout (RestoreScaling r) 200] \<and>
      trace (step (PointerPick r) (run evs (scene0 xr))) =
        trace (run evs (scene0 xr)) @
        (case r of Button j \<Rightarrow> [SetTimeout (ReleaseButton r) 100] | _ \<Rightarrow> []) @
        [ParticleStart ''main'', SoundNew ''mechanical'', SoundAttachToMesh r, SoundPlay,
         SetTimeout (RestoreScaling r) 200] \<and>
      map_option emitter (particleSystems (step (PointerPick r) (run evs (scene0 xr))) ''main'') =
        Some (EmitterPositionOf r) \<and>
      map_option started (particleSystems (step (PointerPick r) (run evs (scene0 xr))) ''main'') =
        Some True \<and>
      sounds (step (PointerPick r) (run evs (scene0 xr))) =
        sounds (run evs (scene0 xr)) @
        [\<lparr>soundName = ''mechanical'', url = ''path/to/mechanical-sound.mp3'',
          spatialSound = True, attachedTo = Some r, playing = True\<rparr>] \<and>
      timers (step (PointerPick r) (run evs (scene0 xr))) =
        timers (run evs (scene0 xr)) @
        (case r of Button j \<Rightarrow> [(clock (run evs (scene0 xr)) + 100, ReleaseButton r)] | _ \<Rightarrow> []) @
        [(clock (run evs (scene0 xr)) + 200, RestoreScaling r)])"
proof -
  have w: "wired (run evs (scene0 xr))"
    by (rule run_wired) (rule scene0_wired)
  have c: "length (soundsPlayedOn r (run evs (scene0 xr))) =
     (if pick_actions r = None then 0 else count_list evs (PointerPick r))"
    using run_sounds [OF scene0_wired, of r evs xr]
    by (simp add: soundsPlayedOn_def scene0_fields)
  from c pick_new_calls [OF w, of r] pick_effects [OF w, of r] show ?thesis
    by blast
qed

theorem every_pick_requests_its_own_effect_witness:
  "length (soundsPlayedOn (Button 2)
     (run [PointerPick (Button 2), PointerPick (Button 2), PointerPick (Button 2)] (scene0 XRRejected))) = 3 \<and>
   new_calls (run [PointerPick (Button 2), PointerPick (Button 2), PointerPick (Button 2)] (scene0 XRRejected))
     (step (PointerPick (Button 2))
        (run [PointerPick (Button 2), PointerPick (Button 2), PointerPick (Button 2)] (scene0 XRRejected))) =
     [SetTimeout (ReleaseButton (Button 2)) 100, ParticleStart ''main'', SoundNew ''mechanical'',
      SoundAttachToMesh (Button 2), SoundPlay, SetTimeout (RestoreScaling (Button 2)) 200] \<and>
   map_option emitter (particleSystems (step (PointerPick (Button 2))
        (run [PointerPick (Button 2), PointerPick (Button 2), PointerPick (Button 2)] (scene0 XRRejected)))
        ''main'') = Some (EmitterPositionOf (Button 2))"
proof -
  have a: "pick_actions (Button 2) \<noteq> None"
    by simp
  from every_pick_requests_its_own_effect
    [of "Button 2" "[PointerPick (Button 2), PointerPick (Button 2), PointerPick (Button 2)]" XRRejected] a
  show ?thesis
    by (simp del: step.simps)
qed

text \<open>
  C1 fails as stated. \<open>mechanical0\<close> is picked, and picked again 100 ms later while its
  reversion is still queued. The second pick is neither dropped nor merged: two sounds
  have been created and played on the mesh. After another 100 ms the timer of the first
  pick has set the scale back to 1 although the reversion of the second pick is still
  queued.
\<close>

theorem second_activation_overlaps_counterexample:
  "pendingReversions (Mechanical 0) (run [PointerPick (Mechanical 0), Elapse 100] (scene0 XRCreated)) =
     [(200, RestoreScaling (Mechanical 0))] \<and>
   length (soundsPlayedOn (Mechanical 0)
     (run [PointerPick (Mechanical 0), Elapse 100, PointerPick (Mechanical 0)] (scene0 XRCreated))) = 2 \<and>
   scaling (meshes
     (run [PointerPick (Mechanical 0), Elapse 100, PointerPick (Mechanical 0), Elapse 100] (scene0 XRCreated))
     (Mechanical 0)) = Vector3 1 1 1 \<and>
   pendingReversions (Mechanical 0)
     (run [PointerPick (Mechanical 0), Elapse 100, PointerPick (Mechanical 0), Elapse 100] (scene0 XRCreated)) =
     [(300, RestoreScaling (Mechanical 0))]"
  by (simp add: sim_rules pendingReversions_def soundsPlayedOn_def)

section \<open>Reversion timers\<close>

text \<open>
  C7, as the code has it. An activation neither ignores nor replaces a reversion that is
  pending. Activating a mechanical element puts one more timer behind those already
  queued (scale back to 1 after 200 ms); pressing a button puts two (position back
  after 100 ms, scale back after 200 ms). Each timer runs at its own deadline, so 200 ms
  after the activation the queue holds only what was queued before and is not yet due.
\<close>

theorem reversions_queue_up:
  assumes "particleSystems s ''main'' = Some ps"
  shows "timers (state_of (onMechanicalElementActivated r s)) =
           timers s @ [(clock s + 200, RestoreScaling r)] \<and>
         timers (state_of (onButtonPressed r s)) =
           timers s @ [(clock s + 100, ReleaseButton r), (clock s + 200, RestoreScaling r)] \<and>
         pendingReversions r (state_of (onMechanicalElementActivated r s)) =
           pendingReversions r s @ [(clock s + 200, RestoreScaling r)] \<and>
         pendingReversions r (state_of (onButtonPressed r s)) =
           pendingReversions r s @ [(clock s + 100, ReleaseButton r), (clock s + 200, RestoreScaling r)] \<and>
         (200 \<le> dt \<longrightarrow>
            timers (elapse dt (state_of (onMechanicalElementActivated r s))) =
              filter (\<lambda>t. clock s + dt < fst t) (timers s) \<and>
            timers (elapse dt (state_of (onButtonPressed r s))) =
              filter (\<lambda>t. clock s + dt < fst t) (timers s))"
  by (simp add: activated_fields [OF assms] pressed_fields [OF assms] pendingReversions_def
      elapse_frame)

theorem reversions_queue_up_witness:
  "particleSystems (scene0 XRCreated) ''main'' =
     Some \<lparr>emitter = EmitterVector (Vector3 0 1 0), emitRate = 100, started = False\<rparr> \<and>
   (200::nat) \<le> 200 \<and>
   timers (state_of (onButtonPressed (Button 7) (scene0 XRCreated))) =
     [(100, ReleaseButton (Button 7)), (200, RestoreScaling (Button 7))] \<and>
   timers (elapse 200 (state_of (onButtonPressed (Button 7) (scene0 XRCreated)))) = []"
proof -
  have a: "particleSystems (scene0 XRCreated) ''main'' =
     Some \<lparr>emitter = EmitterVector (Vector3 0 1 0), emitRate = 100, started = False\<rparr>"
    by (simp add: scene0_fields)
  have b: "(200::nat) \<le> 200"
    by simp
  from reversions_queue_up [OF a, of "Button 7" 200] a b show ?thesis
    by (simp add: scene0_fields)
qed

text \<open>
  C7 fails as stated. A single press of \<open>button0\<close> leaves two reversions outstanding
  for the button. And \<open>mechanical0\<close>, picked again 100 ms after a first pick, has the
  reversion of the first pick still queued and gets a second one beside it.
\<close>

theorem two_reversions_outstanding_counterexample:
  "pendingReversions (Button 0) (run [PointerPick (Button 0)] (scene0 XRCreated)) =
     [(100, ReleaseButton (Button 0)), (200, RestoreScaling (Button 0))] \<and>
   pendingReversions (Mechanical 0)
     (run [PointerPick (Mechanical 0), Elapse 100, PointerPick (Mechanical 0)] (scene0 XRCreated)) =
     [(200, RestoreScaling (Mechanical 0)), (300, RestoreScaling (Mechanical 0))]"
  by (simp add: sim_rules pendingReversions_def)

section \<open>Activate, then wait\<close>










































section \<open>Buttons and mechanical elements\<close>

text \<open>
  C8, as the code has it. \<open>onButtonPressed\<close> first moves the button in and sets a
  100 ms timer to release it, which no mechanical element does, and then hands the
  button to \<open>onMechanicalElementActivated\<close>, the callback of the mechanical elements.
  So the requests of a button press are one timer of 100 ms followed by requests of the
  same shape as those of a mechanical element: particle start, sound creation, attach,
  play, and a timer of 200 ms.
\<close>

theorem button_press_is_release_timer_then_shared_path:
  assumes "particleSystems s ''main'' = Some ps" and "particleSystems s' ''main'' = Some ps'"
  shows "onButtonPressed b s =
           onMechanicalElementActivated b
             (setTimeout (ReleaseButton b) 100
               (updateMesh b (\<lambda>m. m\<lparr>position := (position m)\<lparr>vz := vz (position m) - 0.02\<rparr>\<rparr>) s)) \<and>
         map shape (new_calls s (state_of (onButtonPressed b s))) =
           SetTimeoutShape 100 #
           map shape (new_calls s' (state_of (onMechanicalElementActivated m s'))) \<and>
         map shape (new_calls s' (state_of (onMechanicalElementActivated m s'))) =
           [ParticleStartShape ''main'', SoundNewShape ''mechanical'', SoundAttachToMeshShape,
            SoundPlayShape, SetTimeoutShape 200]"
  by (simp add: new_calls_def activated_fields [OF assms(2)] pressed_fields [OF assms(1)])
     (simp add: onButtonPressed_def Let_def)

theorem button_press_is_release_timer_then_shared_path_witness:
  "particleSystems (scene0 XRCreated) ''main'' =
     Some \<lparr>emitter = EmitterVector (Vector3 0 1 0), emitRate = 100, started = False\<rparr> \<and>
   map shape (new_calls (scene0 XRCreated) (state_of (onButtonPressed (Button 0) (scene0 XRCreated)))) =
     [SetTimeoutShape 100, ParticleStartShape ''main'', SoundNewShape ''mechanical'',
      SoundAttachToMeshShape, SoundPlayShape, SetTimeoutShape 200]"
proof -
  have a: "particleSystems (scene0 XRCreated) ''main'' =
     Some \<lparr>emitter = EmitterVector (Vector3 0 1 0), emitRate = 100, started = False\<rparr>"
    by (simp add: scene0_fields)
  note t = button_press_is_release_timer_then_shared_path [OF a a, of "Button 0" "Mechanical 0"]
  from t have x: "map shape (new_calls (scene0 XRCreated)
        (state_of (onButtonPressed (Button 0) (scene0 XRCreated)))) =
      SetTimeoutShape 100 # map shape (new_calls (scene0 XRCreated)
        (state_of (onMechanicalElementActivated (Mechanical 0) (scene0 XRCreated))))"
    by blast
  from t have y: "map shape (new_calls (scene0 XRCreated)
        (state_of (onMechanicalElementActivated (Mechanical 0) (scene0 XRCreated)))) =
      [ParticleStartShape ''main'', SoundNewShape ''mechanical'', SoundAttachToMeshShape,
       SoundPlayShape, SetTimeoutShape 200]"
    by blast
  from x y a show ?thesis
    by simp
qed

text \<open>
  C8 fails as stated. In the initial scene a pick of \<open>button0\<close> makes six requests, the
  first of them a timer that a pick of \<open>mechanical0\<close> does not set; the shapes of the
  two sequences of requests differ.
\<close>

theorem button_call_shapes_differ_counterexample:
  "map shape (new_calls (scene0 XRCreated) (run [PointerPick (Button 0)] (scene0 XRCreated))) =
     [SetTimeoutShape 100, ParticleStartShape ''main'', SoundNewShape ''mechanical'',
      SoundAttachToMeshShape, SoundPlayShape, SetTimeoutShape 200] \<and>
   map shape (new_calls (scene0 XRCreated) (run [PointerPick (Mechanical 0)] (scene0 XRCreated))) =
     [ParticleStartShape ''main'', SoundNewShape ''mechanical'',
      SoundAttachToMeshShape, SoundPlayShape, SetTimeoutShape 200] \<and>
   map shape (new_calls (scene0 XRCreated) (run [PointerPick (Button 0)] (scene0 XRCreated))) \<noteq>
   map shape (new_calls (scene0 XRCreated) (run [PointerPick (Mechanical 0)] (scene0 XRCreated)))"
  by (simp add: sim_rules new_calls_def)

section \<open>The rotation clip\<close>

lemma loopFrame_period: "loopFrame 0 100 (frame + 100) = loopFrame 0 100 frame"
proof -
  have e: "(frame + 100) / 100 = frame / 100 + 1"
    by (simp add: add_divide_distrib)
  have "\<lfloor>(frame + 100) / 100\<rfloor> = \<lfloor>frame / 100\<rfloor> + 1"
    unfolding e by simp
  then show ?thesis
    by (simp add: loopFrame_def algebra_simps)
qed

text \<open>
  C9. Every mechanical element carries the clip with keys \<open>(0, 0)\<close> and
  \<open>(100, 2\<pi>)\<close> in loop mode cycle, begun from frame 0 to frame 100 with looping on.
  Evaluated as the specification describes, the clip has period 100: advancing it by
  exactly 100 frames gives the value it had, and from frame 0 that value is 0, the
  frame-0 value, so in particular they agree modulo \<open>2\<pi>\<close>.
\<close>

theorem rotation_clip_has_period_100:
  "clipValue mechanicalAnim 0 100 True (frame + 100) = clipValue mechanicalAnim 0 100 True frame \<and>
   clipValue mechanicalAnim 0 100 True 0 = 0 \<and>
   (\<exists>k::int. clipValue mechanicalAnim 0 100 True (0 + 100) =
      clipValue mechanicalAnim 0 100 True 0 + 2 * pi * of_int k) \<and>
   (i < 8 \<longrightarrow>
      animations (meshes (scene0 xr) (Mechanical i)) = [mechanicalAnim] \<and>
      (Mechanical i, 0, 100, True) \<in> set (animatables (scene0 xr)))"
proof -
  have p: "clipValue mechanicalAnim 0 100 True (frame + 100) = clipValue mechanicalAnim 0 100 True frame"
    for frame
    by (simp add: clipValue_def mechanicalAnim_def loopFrame_period)
  have z: "clipValue mechanicalAnim 0 100 True 0 = 0"
    by (simp add: clipValue_def mechanicalAnim_def loopFrame_def)
  have a: "i < 8 \<longrightarrow>
      animations (meshes (scene0 xr) (Mechanical i)) = [mechanicalAnim] \<and>
      (Mechanical i, 0, 100, True) \<in> set (animatables (scene0 xr))"
    by (auto simp add: scene0_animations scene0_fields)
  have "clipValue mechanicalAnim 0 100 True (0 + 100) =
      clipValue mechanicalAnim 0 100 True 0 + 2 * pi * of_int (0::int)"
    using p [of 0] by simp
  then have m: "\<exists>k::int. clipValue mechanicalAnim 0 100 True (0 + 100) =
      clipValue mechanicalAnim 0 100 True 0 + 2 * pi * of_int k"
    by (rule exI)
  from p [of frame] z m a show ?thesis
    by blast
qed

theorem rotation_clip_has_period_100_witness:
  "(5::nat) < 8 \<and>
   clipValue mechanicalAnim 0 100 True (25 + 100) = clipValue mechanicalAnim 0 100 True 25 \<and>
   animations (meshes (scene0 XRCreated) (Mechanical 5)) = [mechanicalAnim] \<and>
   (Mechanical 5, 0, 100, True) \<in> set (animatables (scene0 XRCreated))"
proof -
  have a: "(5::nat) < 8"
    by simp
  from rotation_clip_has_period_100 [of 25 5 XRCreated] a show ?thesis
    by blast
qed

section \<open>Lookups by name\<close>









end
